theory Spec2Isabelle
  imports Complex_Main "HOL-Library.Log_Nat"
begin

section \<open>Strings and form payloads\<close>

text \<open>
  Strings are lists of code units; the model covers the code units below 256.
  \<open>trim\<close> is \<^verbatim>\<open>String.prototype.trim\<close>: it removes the white space and line
  terminators at both ends (tab, line feed, vertical tab, form feed, carriage return,
  space and no-break space are the ones below 256).
\<close>

definition whitespace :: "char \<Rightarrow> bool" where
  "whitespace c \<longleftrightarrow>
     c \<in> set [CHR 0x09, CHR 0x0A, CHR 0x0B, CHR 0x0C, CHR 0x0D, CHR 0x20, CHR 0xA0]"

definition trim :: "string \<Rightarrow> string" where
  "trim s = rev (dropWhile whitespace (rev (dropWhile whitespace s)))"

text \<open>
  A \<^verbatim>\<open>FormData\<close> is an ordered list of named entries; an entry value is a string
  or a \<^verbatim>\<open>File\<close> (of which only the name is kept). \<^verbatim>\<open>get\<close> yields the first
  value of a name or \<^verbatim>\<open>null\<close>, \<^verbatim>\<open>getAll\<close> all of them in order.
\<close>

datatype form_value = Text string | File string

type_synonym FormData = "(string \<times> form_value) list"

definition formData_get :: "FormData \<Rightarrow> string \<Rightarrow> form_value option" where
  "formData_get fd name = map_of fd name"

definition formData_getAll :: "FormData \<Rightarrow> string \<Rightarrow> form_value list" where
  "formData_getAll fd name = map snd (filter (\<lambda>e. fst e = name) fd)"

text \<open>\<^verbatim>\<open>Boolean(v)\<close>: a \<^verbatim>\<open>File\<close> object is truthy, a string is truthy unless empty.\<close>

fun truthy :: "form_value \<Rightarrow> bool" where
  "truthy (Text s) = (s \<noteq> [])"
| "truthy (File f) = True"

section \<open>The polls and votes tables behind the gateway\<close>

text \<open>
  \<^verbatim>\<open>PollSettings\<close> and \<^verbatim>\<open>endDate\<close> are fields of the \<^verbatim>\<open>Poll\<close> interface
  (app/lib/types/index.ts). The actions of poll-actions never read or write them; a row
  carries them so that properties of closed or single-vote polls can be stated.
  \<^verbatim>\<open>endDate\<close> is a point in time, counted in the unit of the clock.
  The columns \<^verbatim>\<open>id\<close> (here \<open>id_col\<close>), \<^verbatim>\<open>user_id\<close>, \<^verbatim>\<open>question\<close>, \<^verbatim>\<open>options\<close> are the ones the
  actions name; \<^verbatim>\<open>question\<close> and \<^verbatim>\<open>options\<close> hold whatever value the action sent.
\<close>

record PollSettings =
  allowMultipleVotes :: bool
  requireAuthentication :: bool

record poll_row =
  id_col :: string
  user_id :: string
  question :: form_value
  options :: "form_value list"
  endDate :: "nat option"
  settings :: "PollSettings option"

record vote_row =
  poll_id :: string
  vote_user_id :: "string option"
  option_index :: int

text \<open>
  A filter \<^verbatim>\<open>.eq(column, value)\<close>; the actions filter on \<^verbatim>\<open>id\<close> and
  \<^verbatim>\<open>user_id\<close> only. Chained filters are a conjunction.
\<close>

datatype column = Col_id | Col_user_id

type_synonym eq_filter = "column \<times> string"

fun matches :: "poll_row \<Rightarrow> eq_filter \<Rightarrow> bool" where
  "matches p (Col_id, v) = (id_col p = v)"
| "matches p (Col_user_id, v) = (user_id p = v)"

definition row_matches :: "eq_filter list \<Rightarrow> poll_row \<Rightarrow> bool" where
  "row_matches fs p = list_all (matches p) fs"

record poll_values =
  new_user_id :: string
  new_question :: form_value
  new_options :: "form_value list"

record poll_changes =
  set_question :: form_value
  set_options :: "form_value list"

datatype request =
    Insert_poll poll_values
  | Insert_vote vote_row
  | Delete_polls "eq_filter list"
  | Update_polls "eq_filter list" poll_changes
  | Select_polls "eq_filter list"

text \<open>
  The database: its two tables and the requests the gateway has received, oldest first.
  The identifier and the time stamps of a vote row, and the time stamps of a poll row,
  which no action reads, are left out.
\<close>

record db =
  polls :: "poll_row list"
  votes :: "vote_row list"
  requests :: "request list"

text \<open>
  What the actions do not decide is collected in the environment of a call:
  the answer of \<^verbatim>\<open>supabase.auth.getUser()\<close>, the time of the call, the requests the
  gateway refuses, each with the message of its error reply (a refused request changes
  nothing), the identifier the database generates for an inserted poll, and the message
  \<^verbatim>\<open>.single()\<close> reports when the selection is not exactly one row.

  An accepted request has the effect of the statement it stands for. A delete removes the
  rows that match every filter, and with them the votes of the removed polls (the schema
  of the README declares \<^verbatim>\<open>ON DELETE CASCADE\<close> for \<^verbatim>\<open>votes.poll_id\<close>); an update
  writes the new values into the rows that match every filter; an insert adds one row,
  with the columns it does not name left empty.
\<close>

record auth_response =
  user :: "string option"
  userError :: "string option"

record env =
  auth :: auth_response
  now :: nat
  fault :: "(request \<times> string) list"
  new_id :: string
  single_message :: string

fun apply_request :: "env \<Rightarrow> request \<Rightarrow> db \<Rightarrow> db" where
  "apply_request e (Insert_poll v) d =
     d\<lparr>polls := polls d @
        [\<lparr>id_col = new_id e, user_id = new_user_id v, question = new_question v,
          options = new_options v, endDate = None, settings = None\<rparr>]\<rparr>"
| "apply_request e (Insert_vote v) d = d\<lparr>votes := votes d @ [v]\<rparr>"
| "apply_request e (Delete_polls fs) d =
     d\<lparr>polls := filter (\<lambda>p. \<not> row_matches fs p) (polls d),
       votes := filter (\<lambda>v. poll_id v \<notin> id_col ` set (filter (row_matches fs) (polls d)))
                  (votes d)\<rparr>"
| "apply_request e (Update_polls fs c) d =
     d\<lparr>polls := map (\<lambda>p. if row_matches fs p
                          then p\<lparr>question := set_question c, options := set_options c\<rparr>
                          else p) (polls d)\<rparr>"
| "apply_request e (Select_polls fs) d = d"

definition gateway :: "env \<Rightarrow> request \<Rightarrow> db \<Rightarrow> string option \<times> db" where
  "gateway e r d =
     (let d' = d\<lparr>requests := requests d @ [r]\<rparr>
      in case map_of (fault e) r of
           Some msg \<Rightarrow> (Some msg, d')
         | None \<Rightarrow> (None, apply_request e r d'))"

section \<open>The poll actions (poll-actions)\<close>

text \<open>
  \<open>sanitizeOptions\<close> is the expression bound to \<^verbatim>\<open>sanitizedOptions\<close> in
  \<^verbatim>\<open>createPoll\<close>: every string trimmed, every other value replaced by the empty string,
  the empty strings dropped. Nothing removes duplicates.
  In the first check of \<^verbatim>\<open>createPoll\<close> the test \<^verbatim>\<open>!Array.isArray(options)\<close> is never
  true, \<^verbatim>\<open>options\<close> being the result of \<^verbatim>\<open>filter\<close>.

  Every action returns an object whose \<^verbatim>\<open>error\<close> field is a message or
  \<^verbatim>\<open>null\<close>; the model returns that field together with the database after the call.
  The actions have no handler for exceptions and the model has no exceptions:
  a failing request is an error reply of the gateway. The invalidation of the page cache
  (\<^verbatim>\<open>revalidatePath\<close>) is not part of the database and is left out.
\<close>

definition sanitizeOptions :: "form_value list \<Rightarrow> string list" where
  "sanitizeOptions opts =
     filter (\<lambda>s. s \<noteq> [])
       (map (\<lambda>opt. case opt of Text s \<Rightarrow> trim s | File f \<Rightarrow> []) opts)"

definition createPoll :: "env \<Rightarrow> FormData \<Rightarrow> db \<Rightarrow> string option \<times> db" where
  "createPoll e formData d =
     (let question_in = formData_get formData ''question'';
          options_in = filter truthy (formData_getAll formData ''options'')
      in case question_in of
           None \<Rightarrow> (Some ''Invalid form data.'', d)
         | Some (File f) \<Rightarrow> (Some ''Invalid form data.'', d)
         | Some (Text q) \<Rightarrow>
             (let sanitizedQuestion = trim q;
                  sanitizedOptions = sanitizeOptions options_in
              in if sanitizedQuestion = [] \<or> length sanitizedOptions < 2
                 then (Some ''Please provide a question and at least two options.'', d)
                 else (case userError (auth e) of
                         Some msg \<Rightarrow> (Some msg, d)
                       | None \<Rightarrow>
                           (case user (auth e) of
                              None \<Rightarrow> (Some ''You must be logged in to create a poll.'', d)
                            | Some uid \<Rightarrow>
                                gateway e
                                  (Insert_poll
                                     \<lparr>new_user_id = uid,
                                      new_question = Text sanitizedQuestion,
                                      new_options = map Text sanitizedOptions\<rparr>) d))))"

record poll_result =
  poll :: "poll_row option"
  poll_error :: "string option"

definition getPollById :: "env \<Rightarrow> string \<Rightarrow> db \<Rightarrow> poll_result \<times> db" where
  "getPollById e pid d =
     (case gateway e (Select_polls [(Col_id, pid)]) d of
        (Some msg, d') \<Rightarrow> (\<lparr>poll = None, poll_error = Some msg\<rparr>, d')
      | (None, d') \<Rightarrow>
          (case filter (row_matches [(Col_id, pid)]) (polls d') of
             [p] \<Rightarrow> (\<lparr>poll = Some p, poll_error = None\<rparr>, d')
           | _ \<Rightarrow> (\<lparr>poll = None, poll_error = Some (single_message e)\<rparr>, d')))"

text \<open>
  \<^verbatim>\<open>submitVote\<close> reads the user of the session and ignores the session's error;
  \<^verbatim>\<open>user?.id ?? null\<close> is the voter. It reads no poll.
\<close>

definition submitVote :: "env \<Rightarrow> string \<Rightarrow> int \<Rightarrow> db \<Rightarrow> string option \<times> db" where
  "submitVote e pollId optionIndex d =
     gateway e
       (Insert_vote \<lparr>poll_id = pollId, vote_user_id = user (auth e),
                     option_index = optionIndex\<rparr>) d"

definition deletePoll :: "env \<Rightarrow> string \<Rightarrow> db \<Rightarrow> string option \<times> db" where
  "deletePoll e pid d =
     (if userError (auth e) \<noteq> None then (Some ''You must be logged in to delete a poll.'', d)
      else (case user (auth e) of
              None \<Rightarrow> (Some ''You must be logged in to delete a poll.'', d)
            | Some uid \<Rightarrow> gateway e (Delete_polls [(Col_id, pid), (Col_user_id, uid)]) d))"

text \<open>
  \<^verbatim>\<open>updatePoll\<close> casts the form values to strings without a check, so a
  \<^verbatim>\<open>File\<close> passes \<^verbatim>\<open>!question\<close>; only \<^verbatim>\<open>null\<close> and the empty string fail it.
\<close>

definition updatePoll :: "env \<Rightarrow> string \<Rightarrow> FormData \<Rightarrow> db \<Rightarrow> string option \<times> db" where
  "updatePoll e pollId formData d =
     (let options_in = filter truthy (formData_getAll formData ''options'')
      in case formData_get formData ''question'' of
           None \<Rightarrow> (Some ''Please provide a question and at least two options.'', d)
         | Some question_in \<Rightarrow>
             (if \<not> truthy question_in \<or> length options_in < 2
              then (Some ''Please provide a question and at least two options.'', d)
              else (case userError (auth e) of
                      Some msg \<Rightarrow> (Some msg, d)
                    | None \<Rightarrow>
                        (case user (auth e) of
                           None \<Rightarrow> (Some ''You must be logged in to update a poll.'', d)
                         | Some uid \<Rightarrow>
                             gateway e
                               (Update_polls [(Col_id, pollId), (Col_user_id, uid)]
                                  \<lparr>set_question = question_in, set_options = options_in\<rparr>) d))))"

text \<open>
  The lifecycle state of the specification: a poll is closed when its \<^verbatim>\<open>endDate\<close> is set
  and the time is not before it. No function of the source computes this state; the
  definition only names the polls a property speaks about.
\<close>

definition spec_closed :: "nat \<Rightarrow> poll_row \<Rightarrow> bool" where
  "spec_closed t p = (case endDate p of None \<Rightarrow> False | Some end \<Rightarrow> end \<le> t)"

text \<open>The number of vote rows of a user on a poll.\<close>

definition votes_of :: "string \<Rightarrow> string \<Rightarrow> db \<Rightarrow> nat" where
  "votes_of pollId u d =
     length (filter (\<lambda>v. poll_id v = pollId \<and> vote_user_id v = Some u) (votes d))"

section \<open>The poll actions of New-poll\<close>

text \<open>
  New-poll has its own tables: \<^verbatim>\<open>polls\<close> with a title, a creator and three flags, and
  \<^verbatim>\<open>poll_options\<close> with one row for each option. There are two versions of
  \<^verbatim>\<open>createPoll\<close>: one inserts the poll and then its options in two requests
  (\<open>createPoll_inserts\<close>), the other calls the database function
  \<^verbatim>\<open>create_poll_with_options\<close> in one request (\<open>createPoll_rpc\<close>).
\<close>

record CreatePollFormData =
  form_title :: string
  form_description :: "string option"
  form_options :: "string list"
  form_isPublic :: bool
  form_allowMultipleVotes :: bool
  form_allowAnonymousVotes :: bool

record CreatePollResult =
  success :: bool
  pollId :: "string option"
  error :: "string option"

record new_poll =
  title :: string
  description :: "string option"
  creator_id :: string
  is_public :: bool
  allow_multiple_votes :: bool
  allow_anonymous_votes :: bool

record stored_poll = new_poll +
  stored_id :: string

record option_row =
  option_poll_id :: string
  option_text :: string
  order_index :: nat

record rpc_arguments = new_poll +
  rpc_options :: "string list"

datatype np_request =
    Insert_new_poll new_poll
  | Insert_poll_options "option_row list"
  | Rpc_create_poll_with_options rpc_arguments

record np_db =
  np_polls :: "stored_poll list"
  poll_options :: "option_row list"
  np_requests :: "np_request list"

text \<open>
  Both versions run inside \<^verbatim>\<open>try\<close>/\<^verbatim>\<open>catch\<close>, so a request of New-poll fails in one of
  two ways: the gateway answers with an error, or the call throws. The environment also
  holds the user the identity provider would report (\<^verbatim>\<open>getCurrentUser\<close>), which
  part of the code imports.
\<close>

datatype failure = Refused string | Thrown

record np_env =
  np_auth :: "string option"
  np_fault :: "(np_request \<times> failure) list"
  np_new_id :: string

datatype 'a reply = Reply "'a option" "string option" | Throws

definition store_poll :: "string \<Rightarrow> new_poll \<Rightarrow> stored_poll" where
  "store_poll i v =
     \<lparr>title = title v, description = description v, creator_id = creator_id v,
      is_public = is_public v, allow_multiple_votes = allow_multiple_votes v,
      allow_anonymous_votes = allow_anonymous_votes v, stored_id = i\<rparr>"

definition option_rows :: "string \<Rightarrow> string list \<Rightarrow> option_row list" where
  "option_rows i texts =
     map (\<lambda>(index, t). \<lparr>option_poll_id = i, option_text = trim t, order_index = index\<rparr>)
       (enumerate 0 texts)"

text \<open>
  A request is recorded; if the environment makes it fail, the reply is the error (or the
  call throws) and the tables stay as they are; otherwise the request takes effect and
  the reply carries its data.
\<close>

definition np_gateway ::
    "np_env \<Rightarrow> np_request \<Rightarrow> (np_db \<Rightarrow> 'a \<times> np_db) \<Rightarrow> np_db \<Rightarrow> 'a reply \<times> np_db" where
  "np_gateway e r effect d =
     (let d' = d\<lparr>np_requests := np_requests d @ [r]\<rparr>
      in case map_of (np_fault e) r of
           Some (Refused msg) \<Rightarrow> (Reply None (Some msg), d')
         | Some Thrown \<Rightarrow> (Throws, d')
         | None \<Rightarrow> (case effect d' of (x, d'') \<Rightarrow> (Reply (Some x) None, d'')))"

text \<open>\<^verbatim>\<open>from('polls').insert(v).select().single()\<close>: the reply carries the stored row.\<close>

definition insert_poll :: "np_env \<Rightarrow> new_poll \<Rightarrow> np_db \<Rightarrow> stored_poll reply \<times> np_db" where
  "insert_poll e v d =
     np_gateway e (Insert_new_poll v)
       (\<lambda>d'. (store_poll (np_new_id e) v,
               d'\<lparr>np_polls := np_polls d' @ [store_poll (np_new_id e) v]\<rparr>)) d"

text \<open>\<^verbatim>\<open>from('poll_options').insert(rows)\<close>\<close>

definition insert_options :: "np_env \<Rightarrow> option_row list \<Rightarrow> np_db \<Rightarrow> unit reply \<times> np_db" where
  "insert_options e rows d =
     np_gateway e (Insert_poll_options rows)
       (\<lambda>d'. ((), d'\<lparr>poll_options := poll_options d' @ rows\<rparr>)) d"

text \<open>
  Modelled from the spec: the database function \<^verbatim>\<open>create_poll_with_options\<close> is not in
  the source. Following the specification (one poll row and its option rows persisted in a
  single logical transaction, the identifier of the new poll returned) it adds the poll
  and one row for each option text in one step.
\<close>

definition create_poll_with_options :: "string \<Rightarrow> rpc_arguments \<Rightarrow> np_db \<Rightarrow> string \<times> np_db" where
  "create_poll_with_options i a d =
     (i, d\<lparr>np_polls := np_polls d @ [store_poll i (new_poll.truncate a)],
           poll_options := poll_options d @ option_rows i (rpc_options a)\<rparr>)"

text \<open>\<^verbatim>\<open>rpc('create_poll_with_options', a)\<close>\<close>

definition rpc :: "np_env \<Rightarrow> rpc_arguments \<Rightarrow> np_db \<Rightarrow> string reply \<times> np_db" where
  "rpc e a d =
     np_gateway e (Rpc_create_poll_with_options a)
       (create_poll_with_options (np_new_id e) a) d"

definition failed :: "string \<Rightarrow> CreatePollResult" where
  "failed msg = \<lparr>success = False, pollId = None, error = Some msg\<rparr>"

text \<open>\<^verbatim>\<open>formData.description?.trim() || null\<close>\<close>

definition trimmed_or_null :: "string option \<Rightarrow> string option" where
  "trimmed_or_null x =
     (case x of None \<Rightarrow> None | Some s \<Rightarrow> if trim s = [] then None else Some (trim s))"

definition validOptions_of :: "string list \<Rightarrow> string list" where
  "validOptions_of opts = filter (\<lambda>option. trim option \<noteq> []) opts"

definition createPoll_inserts ::
    "np_env \<Rightarrow> CreatePollFormData \<Rightarrow> np_db \<Rightarrow> CreatePollResult \<times> np_db" where
  "createPoll_inserts e formData d =
     (if trim (form_title formData) = [] then (failed ''Title is required'', d)
      else if length (form_options formData) < 2
      then (failed ''At least 2 options are required'', d)
      else if length (form_options formData) > 10
      then (failed ''Maximum 10 options allowed'', d)
      else
        (let validOptions = validOptions_of (form_options formData)
         in if length validOptions < 2 then (failed ''All options must have text'', d)
            else
              (case insert_poll e
                         \<lparr>title = trim (form_title formData),
                          description = trimmed_or_null (form_description formData),
                          creator_id = ''mock-user-id'',
                          is_public = form_isPublic formData,
                          allow_multiple_votes = form_allowMultipleVotes formData,
                          allow_anonymous_votes = form_allowAnonymousVotes formData\<rparr> d of
                 (Throws, d1) \<Rightarrow> (failed ''An unexpected error occurred'', d1)
               | (Reply x (Some pollError), d1) \<Rightarrow> (failed ''Failed to create poll'', d1)
               | (Reply None None, d1) \<Rightarrow> (failed ''Failed to create poll'', d1)
               | (Reply (Some new) None, d1) \<Rightarrow>
                   (case insert_options e (option_rows (stored_id new) validOptions) d1 of
                      (Throws, d2) \<Rightarrow> (failed ''An unexpected error occurred'', d2)
                    | (Reply y (Some optionsError), d2) \<Rightarrow>
                        (failed ''Failed to create poll options'', d2)
                    | (Reply y None, d2) \<Rightarrow>
                        (\<lparr>success = True, pollId = Some (stored_id new), error = None\<rparr>, d2)))))"

definition createPoll_rpc ::
    "np_env \<Rightarrow> CreatePollFormData \<Rightarrow> np_db \<Rightarrow> CreatePollResult \<times> np_db" where
  "createPoll_rpc e formData d =
     (if trim (form_title formData) = [] then (failed ''Title is required'', d)
      else
        (let validOptions = validOptions_of (form_options formData)
         in if length validOptions < 2 then (failed ''At least 2 options are required'', d)
            else
              (case rpc e
                         \<lparr>title = trim (form_title formData),
                          description = trimmed_or_null (form_description formData),
                          creator_id = ''demo-user'',
                          is_public = form_isPublic formData,
                          allow_multiple_votes = form_allowMultipleVotes formData,
                          allow_anonymous_votes = form_allowAnonymousVotes formData,
                          rpc_options = map trim validOptions\<rparr> d of
                 (Throws, d1) \<Rightarrow> (failed ''An unexpected error occurred'', d1)
               | (Reply x (Some err), d1) \<Rightarrow> (failed ''Failed to create poll'', d1)
               | (Reply x None, d1) \<Rightarrow>
                   (\<lparr>success = True, pollId = x, error = None\<rparr>, d1))))"

section \<open>The results page\<close>

text \<open>
  \<^verbatim>\<open>ResultsPage\<close> receives the identifier of a poll and, in the query of the address,
  the vote just cast (or nothing). It shows a line of thanks that names the vote, one row
  for each option of the poll, the total and a link back to the poll. The poll and the
  table of counts are constants written in the function (\<^verbatim>\<open>mockPoll\<close>, \<^verbatim>\<open>mockResults\<close>,
  marked as mock data in the source); the page reads no vote row.

  JavaScript numbers are modelled by the rationals they denote, and every result of an
  arithmetic operation is rounded by \<open>to_double\<close> to the nearest binary64 value, ties to
  the even significand (for values in the normal range): \<open>binade x\<close> is the exponent of
  the power of two at or below \<open>x\<close>, and the significand has 53 bits.
  \<^verbatim>\<open>Math.round\<close> yields the nearest integer, the upper one in a tie.
\<close>

definition two_to :: "int \<Rightarrow> rat" where
  "two_to k = (if 0 \<le> k then 2 ^ nat k else 1 / 2 ^ nat (- k))"

definition binade :: "rat \<Rightarrow> int" where
  "binade x =
     (let k = bitlen (fst (quotient_of x)) - bitlen (snd (quotient_of x))
      in if two_to k \<le> x then k else k - 1)"

definition round_half_even :: "rat \<Rightarrow> int" where
  "round_half_even x =
     (let f = \<lfloor>x\<rfloor>; r = x - of_int f
      in if r < 1 / 2 then f else if 1 / 2 < r then f + 1 else if even f then f else f + 1)"

definition to_double :: "rat \<Rightarrow> rat" where
  "to_double x =
     (if x = 0 then 0
      else (let u = two_to (binade \<bar>x\<bar> - 52)
            in sgn x * of_int (round_half_even (\<bar>x\<bar> / u)) * u))"









section \<open>Sample data\<close>

definition signed_in :: "string \<Rightarrow> env" where
  "signed_in u =
     \<lparr>auth = \<lparr>user = Some u, userError = None\<rparr>, now = 10, fault = [],
      new_id = ''p2'', single_message = ''not a single row''\<rparr>"

definition signed_out :: env where
  "signed_out =
     \<lparr>auth = \<lparr>user = None, userError = None\<rparr>, now = 10, fault = [],
      new_id = ''p2'', single_message = ''not a single row''\<rparr>"

text \<open>
  A poll of alice that ended at time 5, for signed-in voters with one vote each.
\<close>

definition tea_poll :: poll_row where
  "tea_poll =
     \<lparr>id_col = ''p1'', user_id = ''alice'', question = Text ''Tea?'',
      options = [Text ''yes'', Text ''no''], endDate = Some 5,
      settings = Some \<lparr>allowMultipleVotes = False, requireAuthentication = True\<rparr>\<rparr>"

definition tea_db :: db where
  "tea_db = \<lparr>polls = [tea_poll], votes = [], requests = []\<rparr>"

definition form_of :: "string \<Rightarrow> string list \<Rightarrow> FormData" where
  "form_of q opts = (''question'', Text q) # map (\<lambda>t. (''options'', Text t)) opts"

definition np_form :: "string \<Rightarrow> string list \<Rightarrow> CreatePollFormData" where
  "np_form t opts =
     \<lparr>form_title = t, form_description = None, form_options = opts, form_isPublic = True,
      form_allowMultipleVotes = False, form_allowAnonymousVotes = True\<rparr>"

definition np_empty :: np_db where
  "np_empty = \<lparr>np_polls = [], poll_options = [], np_requests = []\<rparr>"

definition eleven :: "string list" where
  "eleven = [''a'', ''b'', ''c'', ''d'', ''e'', ''f'', ''g'', ''h'', ''i'', ''j'', ''k'']"

text \<open>
  Two environments of New-poll with nobody signed in: one where every request succeeds,
  one where the gateway refuses the insert of the three option rows of a new poll.
\<close>

definition np_quiet :: np_env where
  "np_quiet = \<lparr>np_auth = None, np_fault = [], np_new_id = ''n1''\<rparr>"

definition np_options_refused :: np_env where
  "np_options_refused =
     \<lparr>np_auth = None,
      np_fault =
        [(Insert_poll_options (option_rows ''n1'' [''red'', ''green'', ''blue'']),
          Refused ''insert failed'')],
      np_new_id = ''n1''\<rparr>"

section \<open>Requests that match no row\<close>

lemma filter_none_matching:
  "\<forall>p \<in> set ps. \<not> row_matches fs p \<Longrightarrow> filter (\<lambda>p. \<not> row_matches fs p) ps = ps"
  by (induction ps) auto

lemma filter_matching_empty:
  "\<forall>p \<in> set ps. \<not> row_matches fs p \<Longrightarrow> filter (row_matches fs) ps = []"
  by (induction ps) auto

lemma map_none_matching:
  "\<forall>p \<in> set ps. \<not> row_matches fs p \<Longrightarrow> map (\<lambda>p. if row_matches fs p then f p else p) ps = ps"
  by (induction ps) auto

lemma owner_filter_no_match:
  "\<forall>p \<in> set ps. id_col p = pid \<longrightarrow> user_id p \<noteq> b \<Longrightarrow>
   \<forall>p \<in> set ps. \<not> row_matches [(Col_id, pid), (Col_user_id, b)] p"
  by (simp add: row_matches_def)

lemma delete_no_match:
  "\<forall>p \<in> set (polls d). \<not> row_matches fs p \<Longrightarrow> apply_request e (Delete_polls fs) d = d"
  by (simp add: filter_none_matching filter_matching_empty)

lemma update_no_match:
  "\<forall>p \<in> set (polls d). \<not> row_matches fs p \<Longrightarrow> apply_request e (Update_polls fs c) d = d"
  by (simp add: map_none_matching)

lemma getPollById_requests_irrelevant:
  "fst (getPollById e pid (d\<lparr>requests := rs\<rparr>)) = fst (getPollById e pid d)"
  by (simp add: getPollById_def gateway_def Let_def split: option.splits list.splits)

section \<open>Deleting a poll of another user\<close>

text \<open>
  C1. Let the acting user \<open>b\<close> be signed in and let no poll with identifier \<open>pid\<close> belong
  to \<open>b\<close> (the poll is owned by another user, or there is none). If the gateway accepts
  the request, \<^verbatim>\<open>deletePoll\<close> returns a null error; the gateway has received exactly one
  request, a delete filtered by both \<^verbatim>\<open>id = pid\<close> and \<^verbatim>\<open>user_id = b\<close>; the tables are
  unchanged; and \<^verbatim>\<open>getPollById\<close> answers after the call what it answered before.
\<close>

theorem deletePoll_other_owner_no_effect:
  assumes "user (auth e) = Some b" and "userError (auth e) = None"
    and "map_of (fault e) (Delete_polls [(Col_id, pid), (Col_user_id, b)]) = None"
    and "\<forall>p \<in> set (polls d). id_col p = pid \<longrightarrow> user_id p \<noteq> b"
  shows "deletePoll e pid d =
           (None, d\<lparr>requests := requests d @ [Delete_polls [(Col_id, pid), (Col_user_id, b)]]\<rparr>)
         \<and> polls (snd (deletePoll e pid d)) = polls d
         \<and> votes (snd (deletePoll e pid d)) = votes d
         \<and> fst (getPollById e' pid (snd (deletePoll e pid d))) = fst (getPollById e' pid d)"
proof -
  let ?r = "Delete_polls [(Col_id, pid), (Col_user_id, b)]"
  let ?d = "d\<lparr>requests := requests d @ [?r]\<rparr>"
  have nm: "\<forall>p \<in> set (polls ?d). \<not> row_matches [(Col_id, pid), (Col_user_id, b)] p"
    using owner_filter_no_match [OF assms(4)] by simp
  have "apply_request e ?r ?d = ?d"
    by (rule delete_no_match [OF nm])
  then have res: "deletePoll e pid d = (None, ?d)"
    using assms(1-3) by (simp add: deletePoll_def gateway_def Let_def)
  show ?thesis
    unfolding res by (simp add: getPollById_requests_irrelevant)
qed

theorem deletePoll_other_owner_no_effect_witness:
  "user (auth (signed_in ''bob'')) = Some ''bob''
   \<and> map user_id (polls tea_db) = [''alice'']
   \<and> deletePoll (signed_in ''bob'') ''p1'' tea_db =
         (None, tea_db\<lparr>requests := [Delete_polls [(Col_id, ''p1''), (Col_user_id, ''bob'')]]\<rparr>)
   \<and> polls (snd (deletePoll (signed_in ''bob'') ''p1'' tea_db)) = [tea_poll]
   \<and> poll (fst (getPollById (signed_in ''carol'') ''p1''
                  (snd (deletePoll (signed_in ''bob'') ''p1'' tea_db)))) = Some tea_poll"
  using deletePoll_other_owner_no_effect
          [of "signed_in ''bob''" "''bob''" "''p1''" tea_db "signed_in ''carol''"]
  by (simp add: signed_in_def tea_db_def tea_poll_def getPollById_def gateway_def
        row_matches_def)

section \<open>Updating a poll of another user\<close>

lemma gateway_refused:
  "map_of (fault e) r = Some msg \<Longrightarrow>
   gateway e r d = (Some msg, d\<lparr>requests := requests d @ [r]\<rparr>)"
  by (simp add: gateway_def Let_def)

lemma gateway_accepted:
  "map_of (fault e) r = None \<Longrightarrow>
   gateway e r d = (None, apply_request e r (d\<lparr>requests := requests d @ [r]\<rparr>))"
  by (simp add: gateway_def Let_def)

lemma gateway_update_no_match:
  assumes "\<forall>p \<in> set (polls d). \<not> row_matches fs p"
  shows "snd (gateway e (Update_polls fs c) d) = d\<lparr>requests := requests d @ [Update_polls fs c]\<rparr>"
proof (cases "map_of (fault e) (Update_polls fs c)")
  case None
  have "\<forall>p \<in> set (polls (d\<lparr>requests := requests d @ [Update_polls fs c]\<rparr>)). \<not> row_matches fs p"
    using assms by simp
  from update_no_match [OF this] None show ?thesis
    by (simp add: gateway_accepted)
next
  case (Some msg)
  then show ?thesis by (simp add: gateway_refused)
qed

text \<open>
  C2, as stated, fails: bob updates the poll of alice with valid changes; the action
  returns a null error, not a refusal, and the poll is as it was.
\<close>

theorem updatePoll_other_owner_counterexample:
  "fst (updatePoll (signed_in ''bob'') ''p1'' (form_of ''x'' [''yes'', ''no'']) tea_db) = None
   \<and> user_id tea_poll = ''alice''
   \<and> polls (snd (updatePoll (signed_in ''bob'') ''p1'' (form_of ''x'' [''yes'', ''no'']) tea_db))
       = [tea_poll]"
  by (simp add: updatePoll_def signed_in_def form_of_def tea_db_def tea_poll_def
        formData_get_def formData_getAll_def gateway_def row_matches_def Let_def)

text \<open>
  C2, amended. Let no poll with identifier \<open>pid\<close> belong to the signed-in user \<open>b\<close>.
  Whatever the changes, \<^verbatim>\<open>updatePoll\<close> leaves the polls and the votes as they are, and
  it never reports the missing ownership. When the changes fail the check (a question
  and at least two options) or the session has an error, it returns that message and
  sends nothing. Otherwise it sends exactly one request, an update filtered by both
  \<^verbatim>\<open>id = pid\<close> and \<^verbatim>\<open>user_id = b\<close>, which matches no row, and returns the reply of the
  gateway: a null error when the gateway accepts the request, else its message.
\<close>

theorem updatePoll_other_owner_unchanged:
  assumes "user (auth e) = Some b"
    and "\<forall>p \<in> set (polls d). id_col p = pid \<longrightarrow> user_id p \<noteq> b"
  shows "polls (snd (updatePoll e pid fd d)) = polls d
         \<and> votes (snd (updatePoll e pid fd d)) = votes d
         \<and> updatePoll e pid fd d =
             (case formData_get fd ''question'' of
                None \<Rightarrow> (Some ''Please provide a question and at least two options.'', d)
              | Some q \<Rightarrow>
                  if \<not> truthy q \<or> length (filter truthy (formData_getAll fd ''options'')) < 2
                  then (Some ''Please provide a question and at least two options.'', d)
                  else (case userError (auth e) of
                          Some msg \<Rightarrow> (Some msg, d)
                        | None \<Rightarrow>
                            (map_of (fault e)
                               (Update_polls [(Col_id, pid), (Col_user_id, b)]
                                  \<lparr>set_question = q,
                                   set_options = filter truthy (formData_getAll fd ''options'')\<rparr>),
                             d\<lparr>requests := requests d @
                                 [Update_polls [(Col_id, pid), (Col_user_id, b)]
                                    \<lparr>set_question = q,
                                     set_options =
                                       filter truthy (formData_getAll fd ''options'')\<rparr>]\<rparr>)))"
proof -
  have nm: "\<forall>p \<in> set (polls d). \<not> row_matches [(Col_id, pid), (Col_user_id, b)] p"
    by (rule owner_filter_no_match [OF assms(2)])
  have sent: "gateway e (Update_polls [(Col_id, pid), (Col_user_id, b)] c) d =
      (map_of (fault e) (Update_polls [(Col_id, pid), (Col_user_id, b)] c),
       d\<lparr>requests := requests d @ [Update_polls [(Col_id, pid), (Col_user_id, b)] c]\<rparr>)" for c
  proof (cases "map_of (fault e) (Update_polls [(Col_id, pid), (Col_user_id, b)] c)")
    case None
    then show ?thesis
      using gateway_update_no_match [OF nm, of e c] by (simp add: gateway_accepted)
  next
    case (Some msg)
    then show ?thesis by (simp add: gateway_refused)
  qed
  have result: "updatePoll e pid fd d =
      (case formData_get fd ''question'' of
         None \<Rightarrow> (Some ''Please provide a question and at least two options.'', d)
       | Some q \<Rightarrow>
           if \<not> truthy q \<or> length (filter truthy (formData_getAll fd ''options'')) < 2
           then (Some ''Please provide a question and at least two options.'', d)
           else (case userError (auth e) of
                   Some msg \<Rightarrow> (Some msg, d)
                 | None \<Rightarrow>
                     (map_of (fault e)
                        (Update_polls [(Col_id, pid), (Col_user_id, b)]
                           \<lparr>set_question = q,
                            set_options = filter truthy (formData_getAll fd ''options'')\<rparr>),
                      d\<lparr>requests := requests d @
                          [Update_polls [(Col_id, pid), (Col_user_id, b)]
                             \<lparr>set_question = q,
                              set_options =
                                filter truthy (formData_getAll fd ''options'')\<rparr>]\<rparr>)))"
    using assms(1) by (simp add: updatePoll_def Let_def sent split: option.splits)
  have tables: "polls (snd (updatePoll e pid fd d)) = polls d
      \<and> votes (snd (updatePoll e pid fd d)) = votes d"
    unfolding result by (simp split: option.splits)
  from tables result show ?thesis by blast
qed

theorem updatePoll_other_owner_unchanged_witness:
  "user (auth (signed_in ''bob'')) = Some ''bob''
   \<and> map user_id (polls tea_db) = [''alice'']
   \<and> updatePoll (signed_in ''bob'') ''p1'' (form_of ''x'' [''yes'', ''no'']) tea_db =
       (None,
        tea_db\<lparr>requests :=
          [Update_polls [(Col_id, ''p1''), (Col_user_id, ''bob'')]
             \<lparr>set_question = Text ''x'', set_options = [Text ''yes'', Text ''no'']\<rparr>]\<rparr>)
   \<and> polls (snd (updatePoll (signed_in ''bob'') ''p1'' (form_of ''x'' [''yes'', ''no'']) tea_db))
       = polls tea_db
   \<and> question tea_poll = Text ''Tea?''"
  using updatePoll_other_owner_unchanged
          [of "signed_in ''bob''" "''bob''" tea_db "''p1''" "form_of ''x'' [''yes'', ''no'']"]
  by (simp add: signed_in_def tea_db_def tea_poll_def form_of_def formData_get_def
        formData_getAll_def)

section \<open>Voting\<close>

lemma submitVote_accepted:
  "map_of (fault e)
     (Insert_vote \<lparr>poll_id = pid, vote_user_id = user (auth e), option_index = i\<rparr>) = None \<Longrightarrow>
   submitVote e pid i d =
     (None,
      d\<lparr>votes := votes d @ [\<lparr>poll_id = pid, vote_user_id = user (auth e), option_index = i\<rparr>],
        requests := requests d @
          [Insert_vote \<lparr>poll_id = pid, vote_user_id = user (auth e), option_index = i\<rparr>]\<rparr>)"
  by (simp add: submitVote_def gateway_accepted)

lemma submitVote_refused:
  "map_of (fault e)
     (Insert_vote \<lparr>poll_id = pid, vote_user_id = user (auth e), option_index = i\<rparr>) = Some msg \<Longrightarrow>
   submitVote e pid i d =
     (Some msg,
      d\<lparr>requests := requests d @
          [Insert_vote \<lparr>poll_id = pid, vote_user_id = user (auth e), option_index = i\<rparr>]\<rparr>)"
  by (simp add: submitVote_def gateway_refused)

text \<open>
  C3, as stated, fails: the poll of alice ended at time 5, bob votes at time 10; the
  action returns a null error and the vote is stored.
\<close>

theorem submitVote_closed_poll_counterexample:
  "spec_closed (now (signed_in ''bob'')) tea_poll
   \<and> polls tea_db = [tea_poll] \<and> id_col tea_poll = ''p1''
   \<and> submitVote (signed_in ''bob'') ''p1'' 0 tea_db =
       (None,
        tea_db\<lparr>votes := [\<lparr>poll_id = ''p1'', vote_user_id = Some ''bob'', option_index = 0\<rparr>],
          requests :=
            [Insert_vote \<lparr>poll_id = ''p1'', vote_user_id = Some ''bob'', option_index = 0\<rparr>]\<rparr>)"
  by (simp add: spec_closed_def signed_in_def tea_poll_def tea_db_def submitVote_def
        gateway_def Let_def)

text \<open>
  C3, amended. For a poll whose \<^verbatim>\<open>endDate\<close> is set and in the past, \<^verbatim>\<open>submitVote\<close> is
  not rejected for being closed: it reads neither the poll nor the time. When the gateway
  accepts the insert the returned error is null and exactly one vote row is added; when
  the gateway refuses it, the message of the gateway is returned and no row is added.
\<close>

theorem submitVote_closed_poll_not_rejected:
  assumes "p \<in> set (polls d)" and "id_col p = pid" and "spec_closed (now e) p"
  shows "submitVote e pid i d =
           (case map_of (fault e)
                   (Insert_vote \<lparr>poll_id = pid, vote_user_id = user (auth e), option_index = i\<rparr>) of
              None \<Rightarrow>
                (None,
                 d\<lparr>votes := votes d @
                      [\<lparr>poll_id = pid, vote_user_id = user (auth e), option_index = i\<rparr>],
                   requests := requests d @
                      [Insert_vote
                         \<lparr>poll_id = pid, vote_user_id = user (auth e), option_index = i\<rparr>]\<rparr>)
            | Some msg \<Rightarrow>
                (Some msg,
                 d\<lparr>requests := requests d @
                      [Insert_vote
                         \<lparr>poll_id = pid, vote_user_id = user (auth e), option_index = i\<rparr>]\<rparr>))"
  by (simp add: submitVote_accepted submitVote_refused split: option.splits)

theorem submitVote_closed_poll_not_rejected_witness:
  "tea_poll \<in> set (polls tea_db) \<and> spec_closed (now (signed_in ''carol'')) tea_poll
   \<and> fst (submitVote (signed_in ''carol'') ''p1'' 1 tea_db) = None
   \<and> votes (snd (submitVote (signed_in ''carol'') ''p1'' 1 tea_db)) =
       [\<lparr>poll_id = ''p1'', vote_user_id = Some ''carol'', option_index = 1\<rparr>]"
  using submitVote_closed_poll_not_rejected
          [of tea_poll tea_db "''p1''" "signed_in ''carol''" 1]
  by (simp add: spec_closed_def signed_in_def tea_poll_def tea_db_def)

text \<open>
  C4, as stated, fails: the poll of alice allows one vote for each signed-in user; bob
  votes twice; both calls return a null error and two vote rows of bob are stored.
\<close>

theorem submitVote_twice_counterexample:
  "settings tea_poll = Some \<lparr>allowMultipleVotes = False, requireAuthentication = True\<rparr>
   \<and> polls tea_db = [tea_poll] \<and> id_col tea_poll = ''p1''
   \<and> fst (submitVote (signed_in ''bob'') ''p1'' 0 tea_db) = None
   \<and> fst (submitVote (signed_in ''bob'') ''p1'' 0
             (snd (submitVote (signed_in ''bob'') ''p1'' 0 tea_db))) = None
   \<and> votes_of ''p1'' ''bob''
        (snd (submitVote (signed_in ''bob'') ''p1'' 0
                (snd (submitVote (signed_in ''bob'') ''p1'' 0 tea_db)))) = 2"
  by (simp add: signed_in_def tea_poll_def tea_db_def submitVote_def gateway_def Let_def
        votes_of_def)

text \<open>
  C4, amended. \<^verbatim>\<open>submitVote\<close> looks up no earlier vote. For a poll with
  \<^verbatim>\<open>allowMultipleVotes == false\<close> and \<^verbatim>\<open>requireAuthentication == true\<close>, when the
  signed-in user \<open>u\<close> votes twice and the gateway accepts both inserts, both calls return
  a null error and the number of vote rows of \<open>u\<close> on the poll grows by two.
\<close>

theorem submitVote_twice_both_stored:
  assumes "p \<in> set (polls d)" and "id_col p = pid"
    and "settings p = Some \<lparr>allowMultipleVotes = False, requireAuthentication = True\<rparr>"
    and "user (auth e) = Some u" and "user (auth e') = Some u"
    and "map_of (fault e)
           (Insert_vote \<lparr>poll_id = pid, vote_user_id = Some u, option_index = i\<rparr>) = None"
    and "map_of (fault e')
           (Insert_vote \<lparr>poll_id = pid, vote_user_id = Some u, option_index = j\<rparr>) = None"
  shows "fst (submitVote e pid i d) = None
         \<and> fst (submitVote e' pid j (snd (submitVote e pid i d))) = None
         \<and> votes_of pid u (snd (submitVote e' pid j (snd (submitVote e pid i d))))
             = votes_of pid u d + 2"
  using assms(4-7) by (simp add: submitVote_accepted votes_of_def)

theorem submitVote_twice_both_stored_witness:
  "tea_poll \<in> set (polls tea_db)
   \<and> user (auth (signed_in ''dave'')) = Some ''dave''
   \<and> votes_of ''p1'' ''dave'' tea_db = 0
   \<and> votes_of ''p1'' ''dave''
        (snd (submitVote (signed_in ''dave'') ''p1'' 1
                (snd (submitVote (signed_in ''dave'') ''p1'' 0 tea_db)))) = 2"
  using submitVote_twice_both_stored
          [of tea_poll tea_db "''p1''" "signed_in ''dave''" "''dave''" "signed_in ''dave''" 0 1]
  by (simp add: signed_in_def tea_poll_def tea_db_def votes_of_def)

section \<open>Creating a poll (poll-actions)\<close>

text \<open>
  C6, as stated, fails: nobody is signed in and the question is blank; the action answers
  with the message of the question and options check, not with the login message.
\<close>

theorem createPoll_signed_out_counterexample:
  "user (auth signed_out) = None
   \<and> fst (createPoll signed_out (form_of ''  '' [''yes'']) tea_db) =
       Some ''Please provide a question and at least two options.''
   \<and> fst (createPoll signed_out [] tea_db) = Some ''Invalid form data.''"
  by (simp add: createPoll_def signed_out_def form_of_def formData_get_def
        formData_getAll_def sanitizeOptions_def trim_def whitespace_def Let_def)

text \<open>
  C6, amended, for \<^verbatim>\<open>createPoll\<close> of poll-actions. When nobody is signed in the action
  returns an error and the database is as before, no request having been sent. The checks
  run in this order: the type of the question (\<open>Invalid form data.\<close>), the trimmed question
  and the number of sanitized options, the error of the session (its message), and only
  then the login check (\<open>You must be logged in to create a poll.\<close>).
\<close>

theorem createPoll_signed_out_order:
  assumes "user (auth e) = None"
  shows "snd (createPoll e fd d) = d
         \<and> fst (createPoll e fd d) \<noteq> None
         \<and> fst (createPoll e fd d) =
             (case formData_get fd ''question'' of
                None \<Rightarrow> Some ''Invalid form data.''
              | Some (File f) \<Rightarrow> Some ''Invalid form data.''
              | Some (Text q) \<Rightarrow>
                  if trim q = []
                     \<or> length (sanitizeOptions (filter truthy (formData_getAll fd ''options''))) < 2
                  then Some ''Please provide a question and at least two options.''
                  else (case userError (auth e) of
                          Some msg \<Rightarrow> Some msg
                        | None \<Rightarrow> Some ''You must be logged in to create a poll.''))"
  using assms
  by (simp add: createPoll_def Let_def split: option.splits form_value.splits)

theorem createPoll_signed_out_order_witness:
  "user (auth signed_out) = None
   \<and> createPoll signed_out (form_of ''Tea?'' [''yes'', ''no'']) tea_db =
       (Some ''You must be logged in to create a poll.'', tea_db)"
  using createPoll_signed_out_order [of signed_out "form_of ''Tea?'' [''yes'', ''no'']" tea_db]
  by (simp add: signed_out_def form_of_def formData_get_def formData_getAll_def
        sanitizeOptions_def trim_def whitespace_def prod_eq_iff)

text \<open>
  With fewer than two sanitized options \<^verbatim>\<open>createPoll\<close> answers with one of its two
  validation messages and writes nothing, whoever calls.
\<close>

lemma createPoll_option_floor:
  assumes "length (sanitizeOptions (filter truthy (formData_getAll fd ''options''))) < 2"
  shows "snd (createPoll e fd d) = d"
    and "fst (createPoll e fd d) = Some ''Invalid form data.''
         \<or> fst (createPoll e fd d) = Some ''Please provide a question and at least two options.''"
  using assms
  by (simp_all add: createPoll_def Let_def split: option.splits form_value.splits)

text \<open>
  C7: the documentation of \<^verbatim>\<open>createPoll\<close> lists duplicate options among the cases it
  handles, and the code removes no duplicate. Bob sends the options \<open>A\<close> and \<open>A\<close>: the
  action returns a null error and stores a poll with these two options. The options \<open>A\<close>
  and two spaces are turned down, as the claim says.
\<close>

theorem createPoll_duplicate_options_stored:
  "createPoll (signed_in ''bob'') (form_of ''Q'' [''A'', ''A'']) tea_db =
     (None,
      tea_db\<lparr>polls :=
          [tea_poll,
           \<lparr>id_col = ''p2'', user_id = ''bob'', question = Text ''Q'',
            options = [Text ''A'', Text ''A''], endDate = None, settings = None\<rparr>],
        requests :=
          [Insert_poll \<lparr>new_user_id = ''bob'', new_question = Text ''Q'',
                        new_options = [Text ''A'', Text ''A'']\<rparr>]\<rparr>)
   \<and> createPoll (signed_in ''bob'') (form_of ''Q'' [''A'', ''  '']) tea_db =
       (Some ''Please provide a question and at least two options.'', tea_db)"
  by (simp add: createPoll_def signed_in_def form_of_def formData_get_def
        formData_getAll_def sanitizeOptions_def trim_def whitespace_def Let_def
        gateway_def tea_db_def)

text \<open>
  C8, as stated, fails for \<^verbatim>\<open>createPoll\<close> of poll-actions, which has no maximum: bob
  sends eleven options and the poll is stored with all of them.
\<close>

theorem createPoll_eleven_options_counterexample:
  "length eleven = 11
   \<and> fst (createPoll (signed_in ''bob'') (form_of ''Q'' eleven) tea_db) = None
   \<and> map options (polls (snd (createPoll (signed_in ''bob'') (form_of ''Q'' eleven) tea_db)))
       = [options tea_poll, map Text eleven]"
  by (simp add: createPoll_def signed_in_def form_of_def formData_get_def
        formData_getAll_def sanitizeOptions_def trim_def whitespace_def Let_def
        gateway_def tea_db_def eleven_def)

section \<open>Creating a poll (New-poll)\<close>

lemma np_gateway_session:
  "np_gateway (e\<lparr>np_auth := a\<rparr>) r effect d = np_gateway e r effect d"
  by (simp add: np_gateway_def)

text \<open>
  C8, amended, for the version of \<^verbatim>\<open>createPoll\<close> that inserts the poll and its options
  itself. An input with more than ten options is turned down and nothing is written: the
  message is \<open>Title is required\<close> when the trimmed title is empty, which is checked first,
  and \<open>Maximum 10 options allowed\<close> otherwise. The count is the one of the options as sent,
  before the blank ones are dropped.
\<close>

theorem createPoll_inserts_option_ceiling:
  assumes "10 < length (form_options fd)"
  shows "createPoll_inserts e fd d =
           (failed (if trim (form_title fd) = [] then ''Title is required''
                    else ''Maximum 10 options allowed''), d)"
  using assms by (simp add: createPoll_inserts_def)

theorem createPoll_inserts_option_ceiling_witness:
  "10 < length (form_options (np_form ''Q'' eleven))
   \<and> createPoll_inserts np_quiet (np_form ''Q'' eleven) np_empty =
       (\<lparr>success = False, pollId = None, error = Some ''Maximum 10 options allowed''\<rparr>,
        np_empty)"
  using createPoll_inserts_option_ceiling [of "np_form ''Q'' eleven" np_quiet np_empty]
  by (simp add: np_form_def eleven_def failed_def trim_def whitespace_def)

text \<open>
  C5: the version of \<^verbatim>\<open>createPoll\<close> that sends two inserts does not remove the poll when
  the insert of its options fails. With three options and a gateway that refuses the
  second insert, the action answers \<open>Failed to create poll options\<close> and the poll stays in
  the table, without any option. The version that calls the database function sends one
  request only.
\<close>

theorem createPoll_inserts_orphaned_poll:
  "createPoll_inserts np_options_refused (np_form ''Colour?'' [''red'', ''green'', ''blue'']) np_empty =
     (\<lparr>success = False, pollId = None, error = Some ''Failed to create poll options''\<rparr>,
      \<lparr>np_polls =
         [\<lparr>title = ''Colour?'', description = None, creator_id = ''mock-user-id'',
           is_public = True, allow_multiple_votes = False, allow_anonymous_votes = True,
           stored_id = ''n1''\<rparr>],
       poll_options = [],
       np_requests =
         [Insert_new_poll
            \<lparr>title = ''Colour?'', description = None, creator_id = ''mock-user-id'',
             is_public = True, allow_multiple_votes = False, allow_anonymous_votes = True\<rparr>,
          Insert_poll_options (option_rows ''n1'' [''red'', ''green'', ''blue''])]\<rparr>)"
  by (simp add: createPoll_inserts_def np_options_refused_def np_form_def np_empty_def
        validOptions_of_def trim_def whitespace_def trimmed_or_null_def insert_poll_def
        insert_options_def np_gateway_def store_poll_def failed_def Let_def
        option_rows_def)

text \<open>
  The version that calls the database function either succeeds or leaves both tables as
  they were.
\<close>

lemma createPoll_rpc_all_or_nothing:
  "success (fst (createPoll_rpc e fd d))
   \<or> (np_polls (snd (createPoll_rpc e fd d)) = np_polls d
       \<and> poll_options (snd (createPoll_rpc e fd d)) = poll_options d)"
  by (simp add: createPoll_rpc_def rpc_def np_gateway_def failed_def Let_def
        create_poll_with_options_def split: option.splits failure.splits)

lemma insert_poll_session: "insert_poll (e\<lparr>np_auth := a\<rparr>) v d = insert_poll e v d"
  by (simp add: insert_poll_def np_gateway_session)

lemma insert_options_session:
  "insert_options (e\<lparr>np_auth := a\<rparr>) rows d = insert_options e rows d"
  by (simp add: insert_options_def np_gateway_session)

lemma rpc_session: "rpc (e\<lparr>np_auth := a\<rparr>) args d = rpc e args d"
  by (simp add: rpc_def np_gateway_session)

lemma createPoll_inserts_session:
  "createPoll_inserts (e\<lparr>np_auth := a\<rparr>) fd d = createPoll_inserts e fd d"
  by (simp add: createPoll_inserts_def insert_poll_session insert_options_session Let_def
        split: prod.splits reply.splits option.splits)

lemma createPoll_rpc_session:
  "createPoll_rpc (e\<lparr>np_auth := a\<rparr>) fd d = createPoll_rpc e fd d"
  by (simp add: createPoll_rpc_def rpc_session Let_def)

lemma createPoll_inserts_creator:
  "success (fst (createPoll_inserts e fd d)) \<Longrightarrow>
   map creator_id (np_polls (snd (createPoll_inserts e fd d))) =
     map creator_id (np_polls d) @ [''mock-user-id'']"
  by (simp add: createPoll_inserts_def insert_poll_def insert_options_def np_gateway_def
        failed_def Let_def store_poll_def
        split: if_splits option.splits failure.splits)

lemma createPoll_rpc_creator:
  "success (fst (createPoll_rpc e fd d)) \<Longrightarrow>
   map creator_id (np_polls (snd (createPoll_rpc e fd d))) =
     map creator_id (np_polls d) @ [''demo-user'']"
  by (simp add: createPoll_rpc_def rpc_def np_gateway_def failed_def Let_def store_poll_def
        create_poll_with_options_def new_poll.truncate_def
        split: if_splits option.splits failure.splits)

lemma createPoll_inserts_succeeds:
  "np_fault e = [] \<Longrightarrow> trim (form_title fd) \<noteq> [] \<Longrightarrow> length (form_options fd) \<le> 10 \<Longrightarrow>
   2 \<le> length (validOptions_of (form_options fd)) \<Longrightarrow>
   fst (createPoll_inserts e fd d) = \<lparr>success = True, pollId = Some (np_new_id e), error = None\<rparr>"
proof -
  assume a: "np_fault e = []" "trim (form_title fd) \<noteq> []" "length (form_options fd) \<le> 10"
    "2 \<le> length (validOptions_of (form_options fd))"
  have "length (validOptions_of (form_options fd)) \<le> length (form_options fd)"
    by (simp add: validOptions_of_def)
  with a(4) have "2 \<le> length (form_options fd)" by linarith
  with a show ?thesis
    by (simp add: createPoll_inserts_def insert_poll_def insert_options_def np_gateway_def
        Let_def store_poll_def)
qed

lemma createPoll_rpc_succeeds:
  "np_fault e = [] \<Longrightarrow> trim (form_title fd) \<noteq> [] \<Longrightarrow>
   2 \<le> length (validOptions_of (form_options fd)) \<Longrightarrow>
   fst (createPoll_rpc e fd d) = \<lparr>success = True, pollId = Some (np_new_id e), error = None\<rparr>"
  by (simp add: createPoll_rpc_def rpc_def np_gateway_def Let_def create_poll_with_options_def)

text \<open>
  C10. Neither version of \<^verbatim>\<open>createPoll\<close> in New-poll asks the identity provider: the
  result and the database after the call are the same whoever is signed in, or nobody.
  Whenever a call succeeds, exactly one poll has been added and its creator is the
  constant of the version, \<open>mock-user-id\<close> for the one with two inserts and \<open>demo-user\<close> for
  the one that calls the database function. A call with a title, at least two options
  with text (at most ten options for the version with two inserts) and a gateway that
  refuses nothing succeeds.
\<close>

theorem createPoll_new_poll_fixed_creator:
  "createPoll_inserts (e\<lparr>np_auth := a\<rparr>) fd d = createPoll_inserts e fd d
   \<and> createPoll_rpc (e\<lparr>np_auth := a\<rparr>) fd d = createPoll_rpc e fd d
   \<and> (success (fst (createPoll_inserts e fd d)) \<longrightarrow>
        map creator_id (np_polls (snd (createPoll_inserts e fd d))) =
          map creator_id (np_polls d) @ [''mock-user-id''])
   \<and> (success (fst (createPoll_rpc e fd d)) \<longrightarrow>
        map creator_id (np_polls (snd (createPoll_rpc e fd d))) =
          map creator_id (np_polls d) @ [''demo-user''])
   \<and> (np_fault e = [] \<and> trim (form_title fd) \<noteq> []
        \<and> 2 \<le> length (validOptions_of (form_options fd)) \<longrightarrow>
        success (fst (createPoll_rpc e fd d))
        \<and> (length (form_options fd) \<le> 10 \<longrightarrow> success (fst (createPoll_inserts e fd d))))"
  using createPoll_inserts_session [where e = e and a = a and fd = fd and d = d]
    createPoll_rpc_session [where e = e and a = a and fd = fd and d = d]
    createPoll_inserts_creator [where e = e and fd = fd and d = d]
    createPoll_rpc_creator [where e = e and fd = fd and d = d]
    createPoll_inserts_succeeds [where e = e and fd = fd and d = d]
    createPoll_rpc_succeeds [where e = e and fd = fd and d = d]
  by simp

theorem createPoll_new_poll_fixed_creator_witness:
  "np_auth np_quiet = None
   \<and> success (fst (createPoll_inserts np_quiet (np_form ''Tea?'' [''yes'', ''no'']) np_empty))
   \<and> map creator_id
        (np_polls (snd (createPoll_inserts np_quiet (np_form ''Tea?'' [''yes'', ''no'']) np_empty)))
       = [''mock-user-id'']
   \<and> success (fst (createPoll_rpc np_quiet (np_form ''Tea?'' [''yes'', ''no'']) np_empty))
   \<and> map creator_id
        (np_polls (snd (createPoll_rpc np_quiet (np_form ''Tea?'' [''yes'', ''no'']) np_empty)))
       = [''demo-user'']
   \<and> createPoll_rpc (np_quiet\<lparr>np_auth := Some ''eve''\<rparr>) (np_form ''Tea?'' [''yes'', ''no''])
         np_empty
       = createPoll_rpc np_quiet (np_form ''Tea?'' [''yes'', ''no'']) np_empty"
  using createPoll_new_poll_fixed_creator
          [where e = np_quiet and a = "Some ''eve''"
             and fd = "np_form ''Tea?'' [''yes'', ''no'']" and d = np_empty]
  by (simp add: np_quiet_def np_form_def np_empty_def validOptions_of_def trim_def
        whitespace_def)

section \<open>The results page\<close>

text \<open>
  Three values of \<open>to_double\<close> that are known from the binary64 format: a small whole
  number and a power of two are kept, and one tenth becomes
  \<open>3602879701896397 / 2\<^sup>5\<^sup>5\<close>.
\<close>

lemma to_double_known_values:
  "to_double 100 = 100 \<and> to_double (1 / 2) = 1 / 2
   \<and> to_double (1 / 10) = 3602879701896397 / 36028797018963968
   \<and> to_double (- (1 / 10)) = - (3602879701896397 / 36028797018963968)"
  by code_simp







end
